theory Spec2Isabelle
  imports Complex_Main "HOL-Library.AList"
begin

section \<open>Strings, pure paths and archive names\<close>

text \<open>
  The assembler builds archive member names with \<^verbatim>\<open>pathlib.Path\<close> and with plain
  string concatenation, and the difference between the two matters to it: a
  \<^verbatim>\<open>Path\<close> drops a trailing separator, a concatenated string keeps it. The path
  operations the code uses are therefore modelled as they compute on a POSIX host.
  Strings are Python \<^verbatim>\<open>str\<close> values without NUL characters (the \<^verbatim>\<open>zipfile\<close>
  module would cut a member name at a NUL).
\<close>

text \<open>\<^verbatim>\<open>s.split('/')\<close>: the pieces between separators, empty pieces included.\<close>

fun split_sep :: "string \<Rightarrow> string list" where
  "split_sep [] = [[]]"
| "split_sep (c # cs) =
     (if c = CHR ''/'' then [] # split_sep cs
      else (case split_sep cs of [] \<Rightarrow> [[c]] | w # ws \<Rightarrow> (c # w) # ws))"

text \<open>\<^verbatim>\<open>'/'.join(comps)\<close>.\<close>

fun join_sep :: "string list \<Rightarrow> string" where
  "join_sep [] = []"
| "join_sep [x] = x"
| "join_sep (x # y # ys) = x @ CHR ''/'' # join_sep (y # ys)"

text \<open>
  A \<^verbatim>\<open>PurePosixPath\<close>: its root (\<^verbatim>\<open>''\<close>, \<^verbatim>\<open>'/'\<close> or \<^verbatim>\<open>'//'\<close>) and its name
  components, in which empty and \<^verbatim>\<open>'.'\<close> components never occur.
\<close>

datatype path = PurePosixPath (root: string) (names: "string list")

definition posix_root :: "string \<Rightarrow> string" where
  "posix_root s =
     (if take 1 s = ''/'' then
        (if take 2 s = ''//'' \<and> take 3 s \<noteq> ''///'' then ''//'' else ''/'')
      else [])"

definition Path :: "string \<Rightarrow> path" where
  "Path s = PurePosixPath (posix_root s)
              (filter (\<lambda>c. c \<noteq> [] \<and> c \<noteq> ''.'') (split_sep s))"

text \<open>\<^verbatim>\<open>p / s\<close> for a string \<^verbatim>\<open>s\<close>: an absolute right operand replaces the left one.\<close>

definition joinpath :: "path \<Rightarrow> string \<Rightarrow> path" where
  "joinpath p s =
     (let q = Path s in
      if root q \<noteq> [] then q else PurePosixPath (root p) (names p @ names q))"

text \<open>\<^verbatim>\<open>str(p)\<close>.\<close>

definition path_str :: "path \<Rightarrow> string" where
  "path_str p =
     (if root p = [] \<and> names p = [] then ''.'' else root p @ join_sep (names p))"

text \<open>\<^verbatim>\<open>p.name\<close>: the final component, the empty string when there is none.\<close>

definition path_name :: "path \<Rightarrow> string" where
  "path_name p = (if names p = [] then [] else last (names p))"


text \<open>
  \<^verbatim>\<open>p.relative_to(q)\<close>: the rest of \<^verbatim>\<open>p\<close> below \<^verbatim>\<open>q\<close>; Python raises
  \<^verbatim>\<open>ValueError\<close> when \<^verbatim>\<open>p\<close> is not below \<^verbatim>\<open>q\<close>, here \<open>None\<close>.
\<close>

definition relative_to :: "path \<Rightarrow> path \<Rightarrow> path option" where
  "relative_to p q =
     (if root p = root q \<and> take (length (names q)) (names p) = names q
      then Some (PurePosixPath [] (drop (length (names q)) (names p)))
      else None)"

text \<open>
  \<^verbatim>\<open>posixpath.normpath\<close>, which \<^verbatim>\<open>ZipFile.write\<close> applies to the member name it is
  given: the loop over the components, with the list \<^verbatim>\<open>new_comps\<close> built so far.
\<close>

fun norm_comps :: "bool \<Rightarrow> string list \<Rightarrow> string list \<Rightarrow> string list" where
  "norm_comps initial_slashes new_comps [] = new_comps"
| "norm_comps initial_slashes new_comps (c # comps) =
     (if c = [] \<or> c = ''.'' then norm_comps initial_slashes new_comps comps
      else if c \<noteq> ''..'' \<or> (\<not> initial_slashes \<and> new_comps = [])
              \<or> (new_comps \<noteq> [] \<and> last new_comps = ''..'')
        then norm_comps initial_slashes (new_comps @ [c]) comps
      else if new_comps \<noteq> [] then norm_comps initial_slashes (butlast new_comps) comps
      else norm_comps initial_slashes new_comps comps)"

definition normpath :: "string \<Rightarrow> string" where
  "normpath p =
     (if p = [] then ''.''
      else (let initial_slashes = posix_root p;
                r = initial_slashes
                    @ join_sep (norm_comps (initial_slashes \<noteq> []) [] (split_sep p))
            in if r = [] then ''.'' else r))"

section \<open>Files, archives and errors\<close>

text \<open>
  The bytes of a file, or of an archive member. A zip archive is kept as the list of its
  members in the order they were written (a name may occur twice); any other file is a
  byte string.
\<close>

datatype blob = Bytes string | ZipData "(string \<times> blob) list"

type_synonym zip_entry = "string \<times> blob"

datatype node = Directory | RegularFile blob

text \<open>
  Modelled from the spec: the enumeration \<^verbatim>\<open>Side\<close> of \<^verbatim>\<open>gtnh.defs\<close>, used both for the
  side of an archive and for the side affinity of a mod.
\<close>

datatype side = CLIENT | SERVER | BOTH

text \<open>
  Exceptions as values. \<open>ValueError_side\<close> is the \<^verbatim>\<open>ValueError\<close> that
  \<^verbatim>\<open>MMCAssembler.assemble\<close> raises, \<open>ValueError_relative_to\<close> the one of
  \<^verbatim>\<open>Path.relative_to\<close>; \<open>OSError\<close> is any failure of a file operation on a
  directory tree; \<open>Raised x\<close> is any exception \<open>x\<close> coming out of a callback or of a
  collaborator.
\<close>

datatype error =
    ValueError_side side
  | ValueError_relative_to
  | ZeroDivisionError
  | FileNotFoundError path
  | IsADirectoryError path
  | BadZipFile path
  | KeyError string
  | OSError
  | LatestReleaseNotFound
  | PackingInterruptException
  | Raised string

text \<open>
  A progress callback \<^verbatim>\<open>Callable[[float, str], None]\<close> is a procedure with a state of
  its own: it returns its new state, or raises the exception it names. The percentages are
  exact reals.
\<close>

type_synonym 's callback = "real \<Rightarrow> string \<Rightarrow> 's \<Rightarrow> string + 's"

text \<open>
  The state a run works on: the local cache (read only), the zip archives of the output
  directories, the state of the callback, the log of the calls made to the callback, and
  the assembler's progress step.
\<close>

record 's state =
  cache :: "path \<Rightarrow> node option"
  out :: "path \<Rightarrow> zip_entry list option"
  cb_state :: 's
  calls :: "(real \<times> string) list"
  delta_progress :: real

type_synonym 's result = "error option \<times> 's state"

text \<open>\<^verbatim>\<open>if callback is not None: callback(delta, label)\<close>.\<close>

definition invoke :: "'s callback option \<Rightarrow> real \<Rightarrow> string \<Rightarrow> 's state \<Rightarrow> 's result" where
  "invoke callback delta label st =
     (case callback of
        None \<Rightarrow> (None, st)
      | Some f \<Rightarrow>
          (case f delta label (cb_state st) of
             Inl x \<Rightarrow> (Some (Raised x), st\<lparr>calls := calls st @ [(delta, label)]\<rparr>)
           | Inr s \<Rightarrow> (None, st\<lparr>cb_state := s, calls := calls st @ [(delta, label)]\<rparr>)))"

subsection \<open>The operations of \<^verbatim>\<open>zipfile\<close> the code uses\<close>

text \<open>A member written to the archive open at \<open>archive\<close> goes to the end of it.\<close>

definition zip_append :: "path \<Rightarrow> zip_entry \<Rightarrow> 's state \<Rightarrow> 's state" where
  "zip_append archive e st =
     st\<lparr>out := (out st)(archive \<mapsto> (case out st archive of None \<Rightarrow> [] | Some es \<Rightarrow> es) @ [e])\<rparr>"

text \<open>\<^verbatim>\<open>ZipFile(path, "w")\<close> creates the archive, or empties the one that is there.\<close>

definition zip_create :: "path \<Rightarrow> 's state \<Rightarrow> 's state" where
  "zip_create archive st = st\<lparr>out := (out st)(archive \<mapsto> [])\<rparr>"

text \<open>
  \<^verbatim>\<open>ZipInfo.from_file\<close> names the member: the normalised \<^verbatim>\<open>arcname\<close> without leading
  separators.
\<close>

definition arcname_of :: "path \<Rightarrow> string" where
  "arcname_of arcname = dropWhile (\<lambda>c. c = CHR ''/'') (normpath (path_str arcname))"

text \<open>
  \<^verbatim>\<open>archive.write(filename, arcname=arcname)\<close>: the file is read from the cache; a
  directory becomes a member whose name ends in the separator.
\<close>

definition zip_write :: "path \<Rightarrow> path \<Rightarrow> path \<Rightarrow> 's state \<Rightarrow> 's result" where
  "zip_write archive filename arcname st =
     (case cache st filename of
        None \<Rightarrow> (Some (FileNotFoundError filename), st)
      | Some Directory \<Rightarrow> (None, zip_append archive (arcname_of arcname @ ''/'', Bytes []) st)
      | Some (RegularFile b) \<Rightarrow> (None, zip_append archive (arcname_of arcname, b) st))"

text \<open>\<^verbatim>\<open>ZipFile(file, "r")\<close>: the members of a zip file of the cache.\<close>

definition zip_read :: "'s state \<Rightarrow> path \<Rightarrow> error + zip_entry list" where
  "zip_read st file =
     (case cache st file of
        None \<Rightarrow> Inl (FileNotFoundError file)
      | Some Directory \<Rightarrow> Inl (IsADirectoryError file)
      | Some (RegularFile (Bytes b)) \<Rightarrow> Inl (BadZipFile file)
      | Some (RegularFile (ZipData es)) \<Rightarrow> Inr es)"

definition namelist :: "zip_entry list \<Rightarrow> string list" where
  "namelist es = map fst es"

text \<open>\<^verbatim>\<open>zip.open(item)\<close> for reading: the last member of that name.\<close>

definition zip_open :: "zip_entry list \<Rightarrow> string \<Rightarrow> blob option" where
  "zip_open es item = map_of (rev es) item"

text \<open>\<^verbatim>\<open>ZipInfo.is_dir\<close>: a member is a directory when its name ends in the separator.\<close>

definition is_dir :: "string \<Rightarrow> bool" where
  "is_dir filename = (filename \<noteq> [] \<and> last filename = CHR ''/'')"

section \<open>The launcher-format assembler (\<^verbatim>\<open>gtnh/assembler/multi_poly.py\<close>)\<close>

text \<open>
  Modelled from the spec: the mod and config references of \<^verbatim>\<open>gtnh.models\<close>, of which
  the assembler reads the identity and the side affinity only. A version is its tag.
\<close>

record GTNHModInfo =
  mod_name :: string
  mod_side :: side

type_synonym GTNHConfig = string

type_synonym GTNHVersion = string

datatype asset = ModAsset GTNHModInfo | ConfigAsset GTNHConfig

text \<open>
  What the module imports and \<^verbatim>\<open>src/\<close> does not hold is a parameter of the model: the
  cache locator (the path it returns, as the string the \<^verbatim>\<open>Path\<close> is made of), the
  output directory and the metadata text of \<^verbatim>\<open>gtnh.defs\<close>, and the label of a progress
  report.
\<close>

record deps =
  get_asset_version_cache_location :: "asset \<Rightarrow> GTNHVersion \<Rightarrow> string"
  RELEASE_MMC_DIR :: string
  MMC_PACK_JSON :: string
  update_progress_label :: "side \<Rightarrow> string \<Rightarrow> path \<Rightarrow> string"

text \<open>
  The assembler instance: the release it is bound to (version, mods in manifest order,
  config bundle), the exclusions of each side, and the optional progress callback.
\<close>

record 's MMCAssembler =
  release_version :: string
  release_mods :: "(GTNHModInfo \<times> GTNHVersion) list"
  release_config :: "GTNHConfig \<times> GTNHVersion"
  exclusions :: "side \<Rightarrow> string list"
  progress_callback :: "'s callback option"

definition mmc_archive_root :: "'s MMCAssembler \<Rightarrow> path" where
  "mmc_archive_root self = Path (''GT New Horizons '' @ release_version self)"

definition mmc_modpack_files :: "'s MMCAssembler \<Rightarrow> path" where
  "mmc_modpack_files self = joinpath (mmc_archive_root self) ''.minecraft''"

definition mmc_modpack_mods :: "'s MMCAssembler \<Rightarrow> path" where
  "mmc_modpack_mods self = joinpath (mmc_modpack_files self) ''mods''"

text \<open>
  Modelled from the spec: \<^verbatim>\<open>GenericAssembler.update_progress\<close>, which is not in
  \<^verbatim>\<open>src/\<close>. It reports one progress step, with a label for the file, to the callback
  when there is one, and does nothing otherwise; it catches nothing.
\<close>

definition update_progress ::
  "deps \<Rightarrow> 's MMCAssembler \<Rightarrow> side \<Rightarrow> path \<Rightarrow> 's state \<Rightarrow> 's result" where
  "update_progress d self sd source_file st =
     invoke (progress_callback self) (delta_progress st)
       (update_progress_label d sd (release_version self) source_file) st"

text \<open>
  \<^verbatim>\<open>add_mods\<close>: the loop over the mods; the progress report comes before the write. The
  flag \<^verbatim>\<open>verbose\<close> and the \<^verbatim>\<open>print\<close> of the archive path only write to the console and
  are left out.
\<close>

fun add_mods ::
  "deps \<Rightarrow> 's MMCAssembler \<Rightarrow> side \<Rightarrow> (GTNHModInfo \<times> GTNHVersion) list \<Rightarrow> path
     \<Rightarrow> 's state \<Rightarrow> 's result" where
  "add_mods d self sd [] archive st = (None, st)"
| "add_mods d self sd ((md, version) # mods) archive st =
     (let source_file = Path (get_asset_version_cache_location d (ModAsset md) version) in
      case update_progress d self sd source_file st of
        (Some e, st1) \<Rightarrow> (Some e, st1)
      | (None, st1) \<Rightarrow>
          (let archive_path = joinpath (mmc_modpack_mods self) (path_name source_file) in
           case zip_write archive source_file archive_path st1 of
             (Some e, st2) \<Rightarrow> (Some e, st2)
           | (None, st2) \<Rightarrow> add_mods d self sd mods archive st2))"

text \<open>
  \<^verbatim>\<open>add_config\<close>: the loop over the names of the config zip. The member name is the
  string of the config root, a separator and the item, not a \<^verbatim>\<open>Path\<close>.
\<close>

fun add_config_items ::
  "'s MMCAssembler \<Rightarrow> side \<Rightarrow> zip_entry list \<Rightarrow> string list \<Rightarrow> path \<Rightarrow> 's state \<Rightarrow> 's result" where
  "add_config_items self sd config_zip [] archive st = (None, st)"
| "add_config_items self sd config_zip (item # items) archive st =
     (if item \<in> set (exclusions self sd) then add_config_items self sd config_zip items archive st
      else
        (case zip_open config_zip item of
           None \<Rightarrow> (Some (KeyError item), st)
         | Some config_item \<Rightarrow>
             add_config_items self sd config_zip items archive
               (zip_append archive
                  (path_str (mmc_modpack_files self) @ ''/'' @ item, config_item) st)))"

definition add_config ::
  "deps \<Rightarrow> 's MMCAssembler \<Rightarrow> side \<Rightarrow> GTNHConfig \<times> GTNHVersion \<Rightarrow> path \<Rightarrow> 's state \<Rightarrow> 's result" where
  "add_config d self sd config archive st =
     (let (modpack_config, config_version) = config;
          config_file =
            Path (get_asset_version_cache_location d (ConfigAsset modpack_config) config_version)
      in
      case zip_read st config_file of
        Inl e \<Rightarrow> (Some e, st)
      | Inr config_zip \<Rightarrow>
          (case update_progress d self sd config_file st of
             (Some e, st1) \<Rightarrow> (Some e, st1)
           | (None, st1) \<Rightarrow>
               add_config_items self sd config_zip (namelist config_zip) archive st1))"

definition get_archive_path :: "deps \<Rightarrow> 's MMCAssembler \<Rightarrow> side \<Rightarrow> path" where
  "get_archive_path d self sd =
     joinpath (Path (RELEASE_MMC_DIR d))
       (''GT New Horizons '' @ release_version self @ '' (MMC).zip'')"

text \<open>
  Modelled from the spec: \<^verbatim>\<open>GenericAssembler.get_mods\<close>, which is not in \<^verbatim>\<open>src/\<close>: the
  mods of the release whose side affinity is the side asked for or \<^verbatim>\<open>BOTH\<close>, in manifest
  order.
\<close>

definition get_mods :: "'s MMCAssembler \<Rightarrow> side \<Rightarrow> (GTNHModInfo \<times> GTNHVersion) list" where
  "get_mods self sd =
     filter (\<lambda>(md, version). mod_side md = sd \<or> mod_side md = BOTH) (release_mods self)"

text \<open>
  Modelled from the spec: the first steps of \<^verbatim>\<open>GenericAssembler.assemble\<close>, the base
  class's method, which is not in \<^verbatim>\<open>src/\<close>. It sets the progress step to 100 over the
  number of steps, one for each included mod and one for the configs, and creates the
  archive at the path of the format.
\<close>

definition begin_assemble :: "deps \<Rightarrow> 's MMCAssembler \<Rightarrow> side \<Rightarrow> 's state \<Rightarrow> 's state" where
  "begin_assemble d self sd st =
     zip_create (get_archive_path d self sd)
       (st\<lparr>delta_progress := 100 / real (length (get_mods self sd) + 1)\<rparr>)"

text \<open>
  Modelled from the spec: \<^verbatim>\<open>GenericAssembler.assemble\<close>. After the first steps it adds
  the mods selected for the side, then the configs, through the methods of the subclass,
  and closes the archive; it catches nothing, so an exception ends it where it is raised,
  with the archive closed as it stands.
\<close>

definition GenericAssembler_assemble ::
  "deps \<Rightarrow> 's MMCAssembler \<Rightarrow> side \<Rightarrow> 's state \<Rightarrow> 's result" where
  "GenericAssembler_assemble d self sd st =
     (let archive = get_archive_path d self sd in
      case add_mods d self sd (get_mods self sd) archive (begin_assemble d self sd st) of
        (Some e, st1) \<Rightarrow> (Some e, st1)
      | (None, st1) \<Rightarrow> add_config d self sd (release_config self) archive st1)"

text \<open>
  \<^verbatim>\<open>add_mmc_meta_data\<close>: the archive is opened in append mode (created when it is not
  there) and the metadata text is written as one more member.
\<close>

definition add_mmc_meta_data :: "deps \<Rightarrow> 's MMCAssembler \<Rightarrow> side \<Rightarrow> 's state \<Rightarrow> 's result" where
  "add_mmc_meta_data d self sd st =
     (None, zip_append (get_archive_path d self sd)
              (path_str (mmc_archive_root self) @ ''/mmc-pack.json'', Bytes (MMC_PACK_JSON d)) st)"

text \<open>\<^verbatim>\<open>MMCAssembler.assemble\<close>.\<close>

definition assemble :: "deps \<Rightarrow> 's MMCAssembler \<Rightarrow> side \<Rightarrow> 's state \<Rightarrow> 's result" where
  "assemble d self sd st =
     (if sd \<noteq> CLIENT then (Some (ValueError_side sd), st)
      else
        (case GenericAssembler_assemble d self sd st of
           (Some e, st1) \<Rightarrow> (Some e, st1)
         | (None, st1) \<Rightarrow>
             if sd = CLIENT then add_mmc_meta_data d self sd st1 else (None, st1)))"

section \<open>The packaging functions of the GUI (\<^verbatim>\<open>gtnh/gui.py\<close>)\<close>

text \<open>
  Modelled from the spec: the manifest entry \<^verbatim>\<open>ModInfo\<close> of \<^verbatim>\<open>gtnh.mod_info\<close>, of which
  \<^verbatim>\<open>download_mods\<close> reads the name and the side. The side is a string here: the code
  compares it with \<^verbatim>\<open>"BOTH"\<close>, \<^verbatim>\<open>"CLIENT"\<close> and \<^verbatim>\<open>"SERVER"\<close>.
\<close>

record ModInfo =
  ModInfo_name :: string
  ModInfo_side :: string

text \<open>
  \<^verbatim>\<open>download_mods\<close>. The downloader \<^verbatim>\<open>download_mod\<close> is a parameter: it returns the
  paths of the files of a mod, or raises. The step of the progress bar is computed first,
  by a division by the number of mods.
\<close>

fun download_mods_loop ::
  "(ModInfo \<Rightarrow> error + path list) \<Rightarrow> 's callback option \<Rightarrow> real \<Rightarrow> ModInfo list
     \<Rightarrow> path list \<times> path list \<Rightarrow> 's state \<Rightarrow> (error + path list \<times> path list) \<times> 's state" where
  "download_mods_loop download_mod callback delta [] (client_paths, server_paths) st =
     (Inr (client_paths, server_paths), st)"
| "download_mods_loop download_mod callback delta (md # mods) (client_paths, server_paths) st =
     (case invoke callback delta
             (''downloading mods. current mod: '' @ ModInfo_name md @ '' Progress: {0}%'') st of
        (Some e, st1) \<Rightarrow> (Inl e, st1)
      | (None, st1) \<Rightarrow>
          (case download_mod md of
             Inl e \<Rightarrow> (Inl e, st1)
           | Inr paths \<Rightarrow>
               if ModInfo_side md = ''BOTH'' then
                 download_mods_loop download_mod callback delta mods
                   (client_paths @ paths, server_paths @ paths) st1
               else if ModInfo_side md = ''CLIENT'' then
                 download_mods_loop download_mod callback delta mods
                   (client_paths @ paths, server_paths) st1
               else if ModInfo_side md = ''SERVER'' then
                 download_mods_loop download_mod callback delta mods
                   (client_paths, server_paths @ paths) st1
               else
                 download_mods_loop download_mod callback delta mods
                   (client_paths, server_paths) st1))"

definition download_mods ::
  "(ModInfo \<Rightarrow> error + path list) \<Rightarrow> ModInfo list \<Rightarrow> 's callback option \<Rightarrow> 's state
     \<Rightarrow> (error + path list \<times> path list) \<times> 's state" where
  "download_mods download_mod github_mods callback st =
     (if length github_mods = 0 then (Inl ZeroDivisionError, st)
      else download_mods_loop download_mod callback (100 / real (length github_mods))
             github_mods ([], []) st)"

text \<open>
  \<^verbatim>\<open>pack_clientpack\<close>. The cache directory that \<^verbatim>\<open>ensure_cache_dir\<close> returns is a
  parameter; the archive name is relative to it, the working directory at that point.
  Deleting the previous archive and opening a new one in write mode leave an empty archive.
\<close>

fun pack_clientpack_loop ::
  "path \<Rightarrow> string \<Rightarrow> 's callback option \<Rightarrow> real \<Rightarrow> path list \<Rightarrow> path \<Rightarrow> 's state \<Rightarrow> 's result" where
  "pack_clientpack_loop cache_dir pack_version callback delta [] archive st = (None, st)"
| "pack_clientpack_loop cache_dir pack_version callback delta (mod_path # paths) archive st =
     (case invoke callback delta
             (''Packing client archive version '' @ pack_version @ '': '' @ path_name mod_path
                @ ''. Progress: {0}%'') st of
        (Some e, st1) \<Rightarrow> (Some e, st1)
      | (None, st1) \<Rightarrow>
          (case relative_to mod_path (joinpath cache_dir ''client_archive'') of
             None \<Rightarrow> (Some ValueError_relative_to, st1)
           | Some arcname \<Rightarrow>
               (case zip_write archive mod_path arcname st1 of
                  (Some e, st2) \<Rightarrow> (Some e, st2)
                | (None, st2) \<Rightarrow>
                    pack_clientpack_loop cache_dir pack_version callback delta paths archive st2)))"

definition pack_clientpack ::
  "path \<Rightarrow> path list \<Rightarrow> string \<Rightarrow> 's callback option \<Rightarrow> 's state \<Rightarrow> 's result" where
  "pack_clientpack cache_dir client_paths pack_version callback st =
     (if length client_paths = 0 then (Some ZeroDivisionError, st)
      else
        (let delta = 100 / real (length client_paths);
             archive = joinpath cache_dir (''client-'' @ pack_version @ ''.zip'')
         in pack_clientpack_loop cache_dir pack_version callback delta client_paths archive
              (zip_create archive st)))"

subsection \<open>The extra files of the pack\<close>

















subsection \<open>The progress bars of the archive window\<close>

text \<open>
  A Python \<^verbatim>\<open>float\<close>: a finite value, an infinity or a NaN. Finite values are exact
  reals; the rounding of the binary format is not modelled. A comparison with a NaN is
  false, and \<^verbatim>\<open>min(a, b)\<close> is \<^verbatim>\<open>b\<close> when \<^verbatim>\<open>b < a\<close> and \<^verbatim>\<open>a\<close> otherwise.
\<close>

datatype pyfloat = Finite real | PosInf | NegInf | NaN

fun float_add :: "pyfloat \<Rightarrow> pyfloat \<Rightarrow> pyfloat" where
  "float_add NaN y = NaN"
| "float_add x NaN = NaN"
| "float_add (Finite a) (Finite b) = Finite (a + b)"
| "float_add PosInf NegInf = NaN"
| "float_add NegInf PosInf = NaN"
| "float_add PosInf y = PosInf"
| "float_add NegInf y = NegInf"
| "float_add (Finite a) y = y"

fun float_less :: "pyfloat \<Rightarrow> pyfloat \<Rightarrow> bool" where
  "float_less NaN y = False"
| "float_less x NaN = False"
| "float_less (Finite a) (Finite b) = (a < b)"
| "float_less x NegInf = False"
| "float_less PosInf y = False"
| "float_less NegInf y = True"
| "float_less (Finite a) PosInf = True"

definition float_le :: "pyfloat \<Rightarrow> pyfloat \<Rightarrow> bool" where
  "float_le x y = (x \<noteq> NaN \<and> y \<noteq> NaN \<and> (float_less x y \<or> x = y))"

definition float_min :: "pyfloat \<Rightarrow> pyfloat \<Rightarrow> pyfloat" where
  "float_min a b = (if float_less b a then b else a)"

text \<open>
  \<^verbatim>\<open>float(format(x, ".2f"))\<close>: the nearest value with two decimals, a tie going to the
  even one.
\<close>

definition round_half_even :: "real \<Rightarrow> int" where
  "round_half_even y =
     (let f = \<lfloor>y\<rfloor>; r = y - of_int f in
      if r < 1 / 2 then f else if 1 / 2 < r then f + 1 else if even f then f else f + 1)"

fun format_2f :: "pyfloat \<Rightarrow> pyfloat" where
  "format_2f (Finite x) = Finite (of_int (round_half_even (x * 100)) / 100)"
| "format_2f x = x"

text \<open>
  The archive window: the values of its two progress bars and the texts of its two
  labels.
\<close>

record ArchiveFrame =
  progress_bar :: pyfloat
  progress_bar_global :: pyfloat
  progress_label :: string
  progress_label_global :: string

datatype widget = Task_widget | Global_widget

definition bar_value :: "ArchiveFrame \<Rightarrow> widget \<Rightarrow> pyfloat" where
  "bar_value fr w = (case w of Task_widget \<Rightarrow> progress_bar fr | Global_widget \<Rightarrow> progress_bar_global fr)"

definition set_bar_value :: "widget \<Rightarrow> pyfloat \<Rightarrow> ArchiveFrame \<Rightarrow> ArchiveFrame" where
  "set_bar_value w v fr =
     (case w of Task_widget \<Rightarrow> fr\<lparr>progress_bar := v\<rparr> | Global_widget \<Rightarrow> fr\<lparr>progress_bar_global := v\<rparr>)"

definition set_label_text :: "widget \<Rightarrow> string \<Rightarrow> ArchiveFrame \<Rightarrow> ArchiveFrame" where
  "set_label_text w t fr =
     (case w of Task_widget \<Rightarrow> fr\<lparr>progress_label := t\<rparr> | Global_widget \<Rightarrow> fr\<lparr>progress_label_global := t\<rparr>)"

text \<open>
  \<^verbatim>\<open>ArchiveFrame._progress_callback\<close>. A widget argument that is absent stands for the
  task bar or the task label. The text formatting \<^verbatim>\<open>label.format(value)\<close> is a
  parameter, \<open>None\<close> when it raises; the bar has its new value by then. Redrawing the
  window (\<^verbatim>\<open>self.update()\<close>) changes nothing here.
\<close>

definition ArchiveFrame_progress_callback ::
  "(string \<Rightarrow> pyfloat \<Rightarrow> string option) \<Rightarrow> ArchiveFrame \<Rightarrow> pyfloat \<Rightarrow> string
     \<Rightarrow> widget option \<Rightarrow> widget option \<Rightarrow> error option \<times> ArchiveFrame" where
  "ArchiveFrame_progress_callback str_format self delta label progress_bar_w label_w =
     (let progress_bar_widget = (case progress_bar_w of None \<Rightarrow> Task_widget | Some w \<Rightarrow> w);
          label_widget = (case label_w of None \<Rightarrow> Task_widget | Some w \<Rightarrow> w);
          self1 = set_bar_value progress_bar_widget
                    (float_add (bar_value self progress_bar_widget) delta) self;
          self2 = set_bar_value progress_bar_widget
                    (float_min (Finite 100) (format_2f (bar_value self1 progress_bar_widget))) self1
      in case str_format label (bar_value self2 progress_bar_widget) of
           None \<Rightarrow> (Some (Raised ''format''), self2)
         | Some text \<Rightarrow> (None, set_label_text label_widget text self2))"

text \<open>A sequence of calls, each with its increment, label and widgets.\<close>

fun progress_calls ::
  "(string \<Rightarrow> pyfloat \<Rightarrow> string option) \<Rightarrow> ArchiveFrame
     \<Rightarrow> (pyfloat \<times> string \<times> widget option \<times> widget option) list \<Rightarrow> ArchiveFrame" where
  "progress_calls str_format self [] = self"
| "progress_calls str_format self ((delta, label, bar_w, label_w) # cs) =
     progress_calls str_format
       (snd (ArchiveFrame_progress_callback str_format self delta label bar_w label_w)) cs"

section \<open>Observations\<close>

text \<open>The members of the archive at a path; none when there is no archive.\<close>

definition members :: "'s state \<Rightarrow> path \<Rightarrow> zip_entry list" where
  "members st archive = (case out st archive of None \<Rightarrow> [] | Some es \<Rightarrow> es)"

text \<open>The name under which \<^verbatim>\<open>add_config\<close> writes an item of the config zip.\<close>

definition config_arcname :: "'s MMCAssembler \<Rightarrow> string \<Rightarrow> string" where
  "config_arcname self item = path_str (mmc_modpack_files self) @ ''/'' @ item"

text \<open>The file of a mod in the cache.\<close>

definition source_file_of :: "deps \<Rightarrow> GTNHModInfo \<times> GTNHVersion \<Rightarrow> path" where
  "source_file_of d mv = Path (get_asset_version_cache_location d (ModAsset (fst mv)) (snd mv))"

text \<open>The name under which \<^verbatim>\<open>add_mods\<close> writes the file of a mod.\<close>

definition mod_arcname :: "deps \<Rightarrow> 's MMCAssembler \<Rightarrow> GTNHModInfo \<times> GTNHVersion \<Rightarrow> string" where
  "mod_arcname d self mv =
     arcname_of (joinpath (mmc_modpack_mods self) (path_name (source_file_of d mv)))"

text \<open>
  The member that \<^verbatim>\<open>add_mods\<close> writes for a mod whose file is in the cache: the bytes
  of a regular file under its name, or the marker of a directory.
\<close>

definition mod_member ::
  "deps \<Rightarrow> 's MMCAssembler \<Rightarrow> (path \<Rightarrow> node option) \<Rightarrow> GTNHModInfo \<times> GTNHVersion \<Rightarrow> zip_entry" where
  "mod_member d self files mv =
     (case files (source_file_of d mv) of
        Some (RegularFile b) \<Rightarrow> (mod_arcname d self mv, b)
      | _ \<Rightarrow> (mod_arcname d self mv @ ''/'', Bytes []))"

text \<open>The members that \<^verbatim>\<open>add_config\<close> writes for a config zip, in its order.\<close>

definition config_members :: "'s MMCAssembler \<Rightarrow> side \<Rightarrow> zip_entry list \<Rightarrow> string list \<Rightarrow> zip_entry list" where
  "config_members self sd config_zip items =
     map (\<lambda>item. (config_arcname self item,
                   (case zip_open config_zip item of None \<Rightarrow> Bytes [] | Some b \<Rightarrow> b)))
       (filter (\<lambda>item. item \<notin> set (exclusions self sd)) items)"

text \<open>The paths that the downloader returns for a mod; none when it raises.\<close>

definition downloaded :: "(ModInfo \<Rightarrow> error + path list) \<Rightarrow> ModInfo \<Rightarrow> path list" where
  "downloaded download_mod md = (case download_mod md of Inl e \<Rightarrow> [] | Inr paths \<Rightarrow> paths)"






section \<open>A release to run the model on\<close>

text \<open>
  The example of the specification: mods A (both sides), B (client) and C (server), a
  config bundle with a file, a directory and a file in it, and the client exclusion of
  the latter. The callback counts its calls and raises at the eighth.
\<close>

definition ex_deps :: deps where
  "ex_deps =
     \<lparr>get_asset_version_cache_location =
        (\<lambda>a v. case a of ModAsset m \<Rightarrow> ''/cache/'' @ mod_name m @ ''-'' @ v @ ''.jar''
                | ConfigAsset c \<Rightarrow> ''/cache/'' @ c @ ''-'' @ v @ ''.zip''),
      RELEASE_MMC_DIR = ''/releases/mmc'',
      MMC_PACK_JSON = ''{}'',
      update_progress_label = (\<lambda>sd ver p. path_name p @ '' {0}%'')\<rparr>"

definition ex_mods :: "(GTNHModInfo \<times> GTNHVersion) list" where
  "ex_mods =
     [(\<lparr>mod_name = ''A'', mod_side = BOTH\<rparr>, ''v1''),
      (\<lparr>mod_name = ''B'', mod_side = CLIENT\<rparr>, ''v2''),
      (\<lparr>mod_name = ''C'', mod_side = SERVER\<rparr>, ''v3'')]"

definition ex_callback :: "nat callback" where
  "ex_callback delta label n = (if n = 7 then Inl ''stop'' else Inr (Suc n))"

definition ex_self :: "nat MMCAssembler" where
  "ex_self =
     \<lparr>release_version = ''2.1'',
      release_mods = ex_mods,
      release_config = (''cfg'', ''v9''),
      exclusions = (\<lambda>sd. if sd = CLIENT then [''sub/b.cfg''] else []),
      progress_callback = Some ex_callback\<rparr>"

definition ex_config_zip :: "zip_entry list" where
  "ex_config_zip = [(''configA.cfg'', Bytes ''x''), (''sub/'', Bytes []), (''sub/b.cfg'', Bytes ''y'')]"

definition ex_cache :: "path \<Rightarrow> node option" where
  "ex_cache =
     map_of
       [(Path ''/cache/A-v1.jar'', RegularFile (Bytes ''AAA'')),
        (Path ''/cache/B-v2.jar'', RegularFile (Bytes ''BBB'')),
        (Path ''/cache/C-v3.jar'', RegularFile (Bytes ''CCC'')),
        (Path ''/cache/cfg-v9.zip'', RegularFile (ZipData ex_config_zip))]"

definition ex_state :: "nat \<Rightarrow> nat state" where
  "ex_state n = \<lparr>cache = ex_cache, out = Map.empty, cb_state = n, calls = [], delta_progress = 0\<rparr>"

definition ex_archive :: path where
  "ex_archive = PurePosixPath ''/'' [''releases'', ''mmc'', ''GT New Horizons 2.1 (MMC).zip'']"

text \<open>A manifest for \<^verbatim>\<open>download_mods\<close>, a downloader that finds one file for each mod, and a
  window whose bars are at zero.\<close>

definition ex_github_mods :: "ModInfo list" where
  "ex_github_mods =
     [\<lparr>ModInfo_name = ''A'', ModInfo_side = ''BOTH''\<rparr>,
      \<lparr>ModInfo_name = ''B'', ModInfo_side = ''CLIENT''\<rparr>,
      \<lparr>ModInfo_name = ''C'', ModInfo_side = ''SERVER''\<rparr>]"

definition ex_download_mod :: "ModInfo \<Rightarrow> error + path list" where
  "ex_download_mod md = Inr [PurePosixPath ''/'' [''cache'', ModInfo_name md]]"

definition ex_frame :: ArchiveFrame where
  "ex_frame =
     \<lparr>progress_bar = Finite 0, progress_bar_global = Finite 0, progress_label = [],
      progress_label_global = []\<rparr>"

definition ex_format :: "string \<Rightarrow> pyfloat \<Rightarrow> string option" where
  "ex_format label v = Some label"







section \<open>Properties\<close>

subsection \<open>The state outside an archive is left alone\<close>

lemma members_zip_append:
  "members (zip_append a e st) p = (if p = a then members st a @ [e] else members st p)"
  by (simp add: members_def zip_append_def)

lemma zip_append_fields:
  "cache (zip_append a e st) = cache st" "cb_state (zip_append a e st) = cb_state st"
  "calls (zip_append a e st) = calls st" "delta_progress (zip_append a e st) = delta_progress st"
  by (simp_all add: zip_append_def)

lemma out_zip_append:
  "out (zip_append a e st) p = (if p = a then Some (members st a @ [e]) else out st p)"
  by (simp add: members_def zip_append_def)

lemma members_Some: "out st a = Some es \<Longrightarrow> members st a = es"
  by (simp add: members_def)

lemma invoke_frame:
  "invoke cb dl l st = (r, st') \<Longrightarrow>
     out st' = out st \<and> cache st' = cache st \<and> delta_progress st' = delta_progress st"
  by (auto simp: invoke_def split: option.splits sum.splits)

lemma invoke_members: "invoke cb dl l st = (r, st') \<Longrightarrow> members st' a = members st a"
  by (auto simp: members_def dest: invoke_frame)

lemma invoke_Some_calls:
  "invoke (Some f) dl l st = (None, st') \<Longrightarrow> calls st' = calls st @ [(dl, l)]"
  by (auto simp: invoke_def split: sum.splits)

lemma invoke_Some_raise:
  "f dl l (cb_state st) = Inl x \<Longrightarrow>
     invoke (Some f) dl l st = (Some (Raised x), st\<lparr>calls := calls st @ [(dl, l)]\<rparr>)"
  by (simp add: invoke_def)

subsection \<open>What the config loop writes\<close>

lemma add_config_items_ok:
  "add_config_items self sd z items a st = (None, st') \<Longrightarrow>
     members st' a = members st a @ config_members self sd z items
     \<and> (\<forall>p. p \<noteq> a \<longrightarrow> out st' p = out st p)
     \<and> (out st a \<noteq> None \<longrightarrow> out st' a \<noteq> None)
     \<and> cache st' = cache st \<and> calls st' = calls st \<and> cb_state st' = cb_state st
     \<and> delta_progress st' = delta_progress st
     \<and> (\<forall>item \<in> set items. item \<notin> set (exclusions self sd) \<longrightarrow> zip_open z item \<noteq> None)"
proof (induction items arbitrary: st)
  case Nil
  then show ?case by (simp add: config_members_def)
next
  case (Cons item items)
  show ?case
  proof (cases "item \<in> set (exclusions self sd)")
    case True
    with Cons.prems have "add_config_items self sd z items a st = (None, st')" by simp
    from Cons.IH [OF this] True show ?thesis by (simp add: config_members_def)
  next
    case False
    with Cons.prems obtain b where b: "zip_open z item = Some b"
      and rest: "add_config_items self sd z items a
                   (zip_append a (path_str (mmc_modpack_files self) @ ''/'' @ item, b) st) = (None, st')"
      by (auto split: option.splits)
    from Cons.IH [OF rest] False b show ?thesis
      by (simp add: config_members_def config_arcname_def members_zip_append out_zip_append
                    zip_append_fields)
  qed
qed

lemma add_config_ok:
  assumes "add_config d self sd (cfg, ver) a st = (None, st')"
  shows "\<exists>z. zip_read st (Path (get_asset_version_cache_location d (ConfigAsset cfg) ver)) = Inr z
     \<and> members st' a = members st a @ config_members self sd z (namelist z)
     \<and> (\<forall>p. p \<noteq> a \<longrightarrow> out st' p = out st p)
     \<and> (out st a \<noteq> None \<longrightarrow> out st' a \<noteq> None)
     \<and> cache st' = cache st \<and> delta_progress st' = delta_progress st
     \<and> (\<forall>item \<in> set (namelist z). item \<notin> set (exclusions self sd) \<longrightarrow> zip_open z item \<noteq> None)"
proof -
  let ?file = "Path (get_asset_version_cache_location d (ConfigAsset cfg) ver)"
  from assms obtain z st1 where z: "zip_read st ?file = Inr z"
    and up: "update_progress d self sd ?file st = (None, st1)"
    and items: "add_config_items self sd z (namelist z) a st1 = (None, st')"
    by (auto simp: add_config_def Let_def split: sum.splits prod.splits option.splits)
  from up have fr: "out st1 = out st" "cache st1 = cache st" "delta_progress st1 = delta_progress st"
    by (auto simp: update_progress_def dest: invoke_frame)
  then have m: "members st1 a = members st a" by (simp add: members_def)
  from add_config_items_ok [OF items] z fr m show ?thesis by simp
qed



subsection \<open>The example, evaluated\<close>

lemma ex_self_fields:
  "release_version ex_self = ''2.1''"
  "release_mods ex_self = ex_mods"
  "release_config ex_self = (''cfg'', ''v9'')"
  "exclusions ex_self sd = (if sd = CLIENT then [''sub/b.cfg''] else [])"
  "progress_callback ex_self = Some ex_callback"
  by (simp_all add: ex_self_def)

lemma ex_deps_fields:
  "get_asset_version_cache_location ex_deps (ModAsset m) v
     = ''/cache/'' @ mod_name m @ ''-'' @ v @ ''.jar''"
  "get_asset_version_cache_location ex_deps (ConfigAsset c) v = ''/cache/'' @ c @ ''-'' @ v @ ''.zip''"
  "RELEASE_MMC_DIR ex_deps = ''/releases/mmc''"
  "MMC_PACK_JSON ex_deps = ''{}''"
  "update_progress_label ex_deps sd ver p = path_name p @ '' {0}%''"
  by (simp_all add: ex_deps_def)

lemma ex_Path_simps:
  "Path ''/cache/A-v1.jar'' = PurePosixPath ''/'' [''cache'', ''A-v1.jar'']"
  "Path ''/cache/B-v2.jar'' = PurePosixPath ''/'' [''cache'', ''B-v2.jar'']"
  "Path ''/cache/C-v3.jar'' = PurePosixPath ''/'' [''cache'', ''C-v3.jar'']"
  "Path ''/cache/cfg-v9.zip'' = PurePosixPath ''/'' [''cache'', ''cfg-v9.zip'']"
  "Path ''/releases/mmc'' = PurePosixPath ''/'' [''releases'', ''mmc'']"
  "Path ''GT New Horizons 2.1'' = PurePosixPath [] [''GT New Horizons 2.1'']"
  "Path ''GT New Horizons 2.1 (MMC).zip'' = PurePosixPath [] [''GT New Horizons 2.1 (MMC).zip'']"
  "Path ''.minecraft'' = PurePosixPath [] [''.minecraft'']"
  "Path ''mods'' = PurePosixPath [] [''mods'']"
  "Path ''A-v1.jar'' = PurePosixPath [] [''A-v1.jar'']"
  "Path ''B-v2.jar'' = PurePosixPath [] [''B-v2.jar'']"
  by (simp_all add: Path_def posix_root_def)

lemma ex_roots:
  "mmc_archive_root ex_self = PurePosixPath [] [''GT New Horizons 2.1'']"
  "mmc_modpack_files ex_self = PurePosixPath [] [''GT New Horizons 2.1'', ''.minecraft'']"
  "mmc_modpack_mods ex_self = PurePosixPath [] [''GT New Horizons 2.1'', ''.minecraft'', ''mods'']"
  "get_archive_path ex_deps ex_self sd = ex_archive"
  by (simp_all add: mmc_archive_root_def mmc_modpack_files_def mmc_modpack_mods_def
        get_archive_path_def ex_archive_def joinpath_def ex_self_fields ex_deps_fields ex_Path_simps)

lemma ex_cache_simps:
  "ex_cache (PurePosixPath ''/'' [''cache'', ''A-v1.jar'']) = Some (RegularFile (Bytes ''AAA''))"
  "ex_cache (PurePosixPath ''/'' [''cache'', ''B-v2.jar'']) = Some (RegularFile (Bytes ''BBB''))"
  "ex_cache (PurePosixPath ''/'' [''cache'', ''cfg-v9.zip'']) = Some (RegularFile (ZipData ex_config_zip))"
  by (simp_all add: ex_cache_def ex_Path_simps)

lemma ex_arcnames:
  "arcname_of (PurePosixPath [] [''GT New Horizons 2.1'', ''.minecraft'', ''mods'', ''A-v1.jar''])
     = ''GT New Horizons 2.1/.minecraft/mods/A-v1.jar''"
  "arcname_of (PurePosixPath [] [''GT New Horizons 2.1'', ''.minecraft'', ''mods'', ''B-v2.jar''])
     = ''GT New Horizons 2.1/.minecraft/mods/B-v2.jar''"
  by (simp_all add: arcname_of_def normpath_def path_str_def posix_root_def)

lemma ex_get_mods:
  "get_mods ex_self CLIENT
     = [(\<lparr>mod_name = ''A'', mod_side = BOTH\<rparr>, ''v1''), (\<lparr>mod_name = ''B'', mod_side = CLIENT\<rparr>, ''v2'')]"
  by (simp add: get_mods_def ex_self_fields ex_mods_def)

lemmas ex_simps = ex_self_fields ex_deps_fields ex_Path_simps ex_roots ex_cache_simps ex_arcnames
  ex_get_mods

lemma ex_zip_read: "zip_read (ex_state n) (Path ''/cache/cfg-v9.zip'') = Inr ex_config_zip"
  by (simp add: zip_read_def ex_state_def ex_simps)

lemma ex_begin:
  "begin_assemble ex_deps ex_self CLIENT (ex_state n)
     = \<lparr>cache = ex_cache, out = [ex_archive \<mapsto> []], cb_state = n, calls = [],
        delta_progress = 100 / 3\<rparr>"
  by (simp add: begin_assemble_def zip_create_def ex_state_def ex_simps)

lemma ex_add_mods:
  "add_mods ex_deps ex_self CLIENT (get_mods ex_self CLIENT) ex_archive
     \<lparr>cache = ex_cache, out = [ex_archive \<mapsto> []], cb_state = 0, calls = [],
        delta_progress = 100 / 3\<rparr>
   = (None,
      \<lparr>cache = ex_cache,
        out = [ex_archive \<mapsto>
                 [(''GT New Horizons 2.1/.minecraft/mods/A-v1.jar'', Bytes ''AAA''),
                  (''GT New Horizons 2.1/.minecraft/mods/B-v2.jar'', Bytes ''BBB'')]],
        cb_state = 2,
        calls = [(100 / 3, ''A-v1.jar {0}%''), (100 / 3, ''B-v2.jar {0}%'')],
        delta_progress = 100 / 3\<rparr>)"
  by (simp add: ex_simps update_progress_def invoke_def ex_callback_def zip_write_def
        zip_append_def joinpath_def path_name_def)

lemma ex_add_config:
  "add_config ex_deps ex_self CLIENT (''cfg'', ''v9'') ex_archive
     \<lparr>cache = ex_cache, out = [ex_archive \<mapsto> es], cb_state = 2, calls = cs,
        delta_progress = dl\<rparr>
   = (None,
      \<lparr>cache = ex_cache,
        out = [ex_archive \<mapsto>
                 es @ [(''GT New Horizons 2.1/.minecraft/configA.cfg'', Bytes ''x''),
                       (''GT New Horizons 2.1/.minecraft/sub/'', Bytes [])]],
        cb_state = 3,
        calls = cs @ [(dl, ''cfg-v9.zip {0}%'')],
        delta_progress = dl\<rparr>)"
  by (simp add: add_config_def ex_simps ex_config_zip_def zip_read_def update_progress_def
        invoke_def ex_callback_def namelist_def zip_open_def zip_append_def path_str_def
        path_name_def)

lemma ex_generic:
  "GenericAssembler_assemble ex_deps ex_self CLIENT (ex_state 0)
   = (None,
      \<lparr>cache = ex_cache,
        out = [ex_archive \<mapsto>
                 [(''GT New Horizons 2.1/.minecraft/mods/A-v1.jar'', Bytes ''AAA''),
                  (''GT New Horizons 2.1/.minecraft/mods/B-v2.jar'', Bytes ''BBB''),
                  (''GT New Horizons 2.1/.minecraft/configA.cfg'', Bytes ''x''),
                  (''GT New Horizons 2.1/.minecraft/sub/'', Bytes [])]],
        cb_state = 3,
        calls = [(100 / 3, ''A-v1.jar {0}%''), (100 / 3, ''B-v2.jar {0}%''),
                 (100 / 3, ''cfg-v9.zip {0}%'')],
        delta_progress = 100 / 3\<rparr>)"
  by (simp add: GenericAssembler_assemble_def ex_roots ex_self_fields ex_begin ex_add_mods
        ex_add_config)

subsection \<open>Directory trees\<close>















subsection \<open>What \<^verbatim>\<open>crawl\<close> lists\<close>











subsection \<open>What the extraction leaves in the temporary directory\<close>







subsection \<open>What \<^verbatim>\<open>copy_file_to_folder\<close> leaves in the folder of a side\<close>












subsection \<open>The pack archive of the example, evaluated\<close>










subsection \<open>What \<^verbatim>\<open>handle_pack_extra_files\<close> copies\<close>



subsection \<open>Config entries and the exclusion set\<close>




subsection \<open>Directory entries of the config zip\<close>

lemma is_dir_config_arcname: "is_dir item \<Longrightarrow> is_dir (config_arcname self item)"
  by (simp add: is_dir_def config_arcname_def)

text \<open>
  Claim C5. An entry of the config zip whose name ends in the separator, and which the
  side does not exclude, is written under the config root with its name unchanged, so
  the member's name ends in the separator too: for \<^verbatim>\<open>zipfile\<close> it is a directory, not
  a regular file. It carries the bytes of the source entry, none for the marker of an
  empty directory.
\<close>

theorem directory_entries_preserved:
  assumes "add_config d self sd (cfg, ver) archive st = (None, st')"
    and "zip_read st (Path (get_asset_version_cache_location d (ConfigAsset cfg) ver)) = Inr config_zip"
    and "item \<in> set (namelist config_zip)"
    and "is_dir item"
    and "item \<notin> set (exclusions self sd)"
  shows "\<exists>b. zip_open config_zip item = Some b
     \<and> (config_arcname self item, b) \<in> set (members st' archive)
     \<and> is_dir (config_arcname self item)
     \<and> config_arcname self item = path_str (mmc_modpack_files self) @ ''/'' @ item"
proof -
  from add_config_ok [OF assms(1)] assms(2) have
    m: "members st' archive = members st archive @ config_members self sd config_zip (namelist config_zip)"
    and op: "\<forall>i \<in> set (namelist config_zip). i \<notin> set (exclusions self sd) \<longrightarrow> zip_open config_zip i \<noteq> None"
    by auto
  from op assms(3,5) obtain b where b: "zip_open config_zip item = Some b" by auto
  from assms(3,5) b have "(config_arcname self item, b) \<in> set (config_members self sd config_zip (namelist config_zip))"
    by (force simp: config_members_def image_iff)
  with m have "(config_arcname self item, b) \<in> set (members st' archive)" by simp
  moreover have "config_arcname self item = path_str (mmc_modpack_files self) @ ''/'' @ item"
    by (simp add: config_arcname_def)
  ultimately show ?thesis using b is_dir_config_arcname [OF assms(4), of self] by blast
qed

theorem directory_entries_preserved_witness:
  "is_dir ''sub/'' \<and> ''sub/'' \<in> set (namelist ex_config_zip)
   \<and> ''sub/'' \<notin> set (exclusions ex_self CLIENT)
   \<and> (''GT New Horizons 2.1/.minecraft/sub/'', Bytes [])
        \<in> set (members (snd (add_config ex_deps ex_self CLIENT (''cfg'', ''v9'') ex_archive
                   \<lparr>cache = ex_cache, out = [ex_archive \<mapsto> []], cb_state = 2, calls = [],
                      delta_progress = 50\<rparr>)) ex_archive)
   \<and> is_dir ''GT New Horizons 2.1/.minecraft/sub/''"
proof -
  let ?st = "\<lparr>cache = ex_cache, out = [ex_archive \<mapsto> []], cb_state = 2, calls = [],
               delta_progress = 50\<rparr> :: nat state"
  have h1: "zip_read ?st (Path (get_asset_version_cache_location ex_deps (ConfigAsset ''cfg'') ''v9''))
              = Inr ex_config_zip"
    by (simp add: zip_read_def ex_simps)
  have h2: "''sub/'' \<in> set (namelist ex_config_zip)" by (simp add: namelist_def ex_config_zip_def)
  have h3: "is_dir ''sub/''" by (simp add: is_dir_def)
  have h4: "''sub/'' \<notin> set (exclusions ex_self CLIENT)" by (simp add: ex_self_fields)
  have n: "config_arcname ex_self ''sub/'' = ''GT New Horizons 2.1/.minecraft/sub/''"
    by (simp add: config_arcname_def path_str_def ex_roots)
  have z: "zip_open ex_config_zip ''sub/'' = Some (Bytes [])"
    by (simp add: zip_open_def ex_config_zip_def)
  from directory_entries_preserved [OF ex_add_config [of "[]" "[]" 50] h1 h2 h3 h4] h2 h3 h4
  show ?thesis
    by (simp add: n z ex_add_config)
qed

subsection \<open>The side the launcher format accepts\<close>

lemma invoke_error: "invoke cb dl l st \<noteq> (Some (ValueError_side s), st')"
  by (simp add: invoke_def split: option.splits sum.splits)

lemma zip_write_error: "zip_write a f n st \<noteq> (Some (ValueError_side s), st')"
  by (simp add: zip_write_def split: option.splits node.splits)

lemma add_mods_error: "add_mods d self sd mods a st \<noteq> (Some (ValueError_side s), st')"
proof (induction mods arbitrary: st)
  case Nil
  show ?case by simp
next
  case (Cons mv mods)
  obtain md version where mv: "mv = (md, version)" by (cases mv)
  show ?case
    unfolding mv
    by (auto simp: Let_def update_progress_def invoke_error zip_write_error Cons.IH
             split: prod.splits option.splits)
qed

lemma add_config_items_error:
  "add_config_items self sd z items a st \<noteq> (Some (ValueError_side s), st')"
  by (induction items arbitrary: st) (auto split: option.splits)

lemma zip_read_error: "zip_read st f \<noteq> Inl (ValueError_side s)"
  by (simp add: zip_read_def split: option.splits node.splits blob.splits)

lemma add_config_error: "add_config d self sd cfg a st \<noteq> (Some (ValueError_side s), st')"
  by (auto simp: add_config_def Let_def update_progress_def zip_read_error invoke_error
                 add_config_items_error
           split: prod.splits sum.splits option.splits)

lemma GenericAssembler_assemble_error:
  "GenericAssembler_assemble d self sd st \<noteq> (Some (ValueError_side s), st')"
  by (auto simp: GenericAssembler_assemble_def Let_def add_mods_error add_config_error
           split: prod.splits option.splits)

text \<open>
  Claim C3. \<^verbatim>\<open>MMCAssembler.assemble\<close> ends with the \<^verbatim>\<open>ValueError\<close> about the side if
  and only if the side is not \<^verbatim>\<open>CLIENT\<close>, and then it returns the state it was given:
  no archive has been created or changed and the callback has not been called.
\<close>

theorem assemble_rejects_other_sides:
  "(\<exists>s. fst (assemble d self sd st) = Some (ValueError_side s)) = (sd \<noteq> CLIENT)
   \<and> (sd \<noteq> CLIENT \<longrightarrow> assemble d self sd st = (Some (ValueError_side sd), st))"
proof (cases "sd = CLIENT")
  case True
  show ?thesis
    by (auto simp: assemble_def add_mmc_meta_data_def True GenericAssembler_assemble_error
             split: prod.splits option.splits)
next
  case False
  then show ?thesis by (simp add: assemble_def)
qed

theorem assemble_rejects_other_sides_witness:
  "SERVER \<noteq> CLIENT
   \<and> assemble ex_deps ex_self SERVER (ex_state 0) = (Some (ValueError_side SERVER), ex_state 0)
   \<and> out (snd (assemble ex_deps ex_self SERVER (ex_state 0))) (get_archive_path ex_deps ex_self SERVER)
       = None"
  using assemble_rejects_other_sides [of ex_deps ex_self SERVER "ex_state 0"]
  by (simp add: ex_state_def)

subsection \<open>What the mod loop and the base method leave alone\<close>

lemma zip_write_ok:
  "zip_write a f n st = (None, st') \<Longrightarrow>
     (\<exists>e. st' = zip_append a e st
        \<and> e = (case cache st f of Some (RegularFile b) \<Rightarrow> (arcname_of n, b)
               | _ \<Rightarrow> (arcname_of n @ ''/'', Bytes [])))"
  by (auto simp: zip_write_def split: option.splits node.splits)

lemma zip_write_fail: "zip_write a f n st = (Some e, st') \<Longrightarrow> st' = st"
  by (auto simp: zip_write_def split: option.splits node.splits)

lemma add_mods_frame:
  "add_mods d self sd mods a st = (r, st') \<Longrightarrow>
     (\<forall>p. p \<noteq> a \<longrightarrow> out st' p = out st p)
     \<and> (out st a \<noteq> None \<longrightarrow> out st' a \<noteq> None)
     \<and> cache st' = cache st \<and> delta_progress st' = delta_progress st"
proof (induction mods arbitrary: st)
  case Nil
  then show ?case by simp
next
  case (Cons mv mods)
  obtain md version where mv: "mv = (md, version)" by (cases mv)
  let ?src = "Path (get_asset_version_cache_location d (ModAsset md) version)"
  obtain r1 st1 where up: "update_progress d self sd ?src st = (r1, st1)" by force
  then have fr1: "out st1 = out st" "cache st1 = cache st" "delta_progress st1 = delta_progress st"
    by (auto simp: update_progress_def dest: invoke_frame)
  show ?case
  proof (cases r1)
    case (Some e)
    with Cons.prems up fr1 show ?thesis by (simp add: mv)
  next
    case None
    obtain r2 st2 where w: "zip_write a ?src (joinpath (mmc_modpack_mods self) (path_name ?src)) st1 = (r2, st2)"
      by force
    show ?thesis
    proof (cases r2)
      case (Some e)
      with zip_write_fail w have "st2 = st1" by blast
      with Cons.prems up None w Some fr1 show ?thesis by (simp add: mv)
    next
      case n2: None
      with zip_write_ok w obtain e where st2: "st2 = zip_append a e st1" by blast
      from Cons.prems up None w n2 have "add_mods d self sd mods a st2 = (r, st')" by (simp add: mv)
      from Cons.IH [OF this] st2 fr1 show ?thesis
        by (simp add: out_zip_append zip_append_fields)
    qed
  qed
qed

lemma add_config_frame:
  "add_config d self sd (cfg, ver) a st = (None, st') \<Longrightarrow>
     (\<forall>p. p \<noteq> a \<longrightarrow> out st' p = out st p) \<and> (out st a \<noteq> None \<longrightarrow> out st' a \<noteq> None)"
  using add_config_ok [of d self sd cfg ver a st st'] by blast

lemma begin_assemble_fields:
  "out (begin_assemble d self sd st) = (out st)(get_archive_path d self sd \<mapsto> [])"
  "cache (begin_assemble d self sd st) = cache st"
  "calls (begin_assemble d self sd st) = calls st"
  "cb_state (begin_assemble d self sd st) = cb_state st"
  "delta_progress (begin_assemble d self sd st) = 100 / real (length (get_mods self sd) + 1)"
  by (simp_all add: begin_assemble_def zip_create_def)

lemma GenericAssembler_assemble_archive:
  assumes "GenericAssembler_assemble d self sd st = (None, st1)"
  shows "out st1 (get_archive_path d self sd) \<noteq> None
         \<and> (\<forall>p. p \<noteq> get_archive_path d self sd \<longrightarrow> out st1 p = out st p)"
proof -
  let ?a = "get_archive_path d self sd"
  obtain cfg ver where c: "release_config self = (cfg, ver)" by force
  from assms obtain st0 where
    m: "add_mods d self sd (get_mods self sd) ?a (begin_assemble d self sd st) = (None, st0)"
    and cf: "add_config d self sd (cfg, ver) ?a st0 = (None, st1)"
    by (auto simp: GenericAssembler_assemble_def Let_def c split: prod.splits option.splits)
  from add_mods_frame [OF m] have "out st0 ?a \<noteq> None" "\<forall>p. p \<noteq> ?a \<longrightarrow> out st0 p = out st p"
    by (simp_all add: begin_assemble_fields)
  with add_config_frame [OF cf] show ?thesis by simp
qed

subsection \<open>The metadata entry\<close>

text \<open>
  Claim C6. When the base \<^verbatim>\<open>assemble\<close> has completed for the client side, the archive
  is there, and \<^verbatim>\<open>MMCAssembler.assemble\<close> ends normally with exactly one more member at
  the end of it: \<^verbatim>\<open>mmc-pack.json\<close> under the archive root, holding the constant
  \<^verbatim>\<open>MMC_PACK_JSON\<close>, which is no function of the release. The members the base method
  wrote, the other archives, the cache and the callback are as the base method left
  them.
\<close>

theorem mmc_meta_data_appended:
  assumes "GenericAssembler_assemble d self CLIENT st = (None, st1)"
  shows "\<exists>st2 es.
     assemble d self CLIENT st = (None, st2)
     \<and> out st1 (get_archive_path d self CLIENT) = Some es
     \<and> out st2 (get_archive_path d self CLIENT)
         = Some (es @ [(path_str (mmc_archive_root self) @ ''/mmc-pack.json'', Bytes (MMC_PACK_JSON d))])
     \<and> (\<forall>p. p \<noteq> get_archive_path d self CLIENT \<longrightarrow> out st2 p = out st1 p)
     \<and> cache st2 = cache st1 \<and> calls st2 = calls st1 \<and> cb_state st2 = cb_state st1"
proof -
  let ?a = "get_archive_path d self CLIENT"
  let ?e = "(path_str (mmc_archive_root self) @ ''/mmc-pack.json'', Bytes (MMC_PACK_JSON d))"
  from GenericAssembler_assemble_archive [OF assms] obtain es where es: "out st1 ?a = Some es"
    by auto
  have "assemble d self CLIENT st = (None, zip_append ?a ?e st1)"
    by (simp add: assemble_def assms add_mmc_meta_data_def)
  moreover have "out (zip_append ?a ?e st1) ?a = Some (es @ [?e])"
    by (simp add: out_zip_append members_Some [OF es])
  moreover have "\<forall>p. p \<noteq> ?a \<longrightarrow> out (zip_append ?a ?e st1) p = out st1 p"
    by (simp add: out_zip_append)
  ultimately show ?thesis using es by (simp add: zip_append_fields)
qed

theorem mmc_meta_data_appended_witness:
  "\<exists>st1 st2.
     GenericAssembler_assemble ex_deps ex_self CLIENT (ex_state 0) = (None, st1)
     \<and> assemble ex_deps ex_self CLIENT (ex_state 0) = (None, st2)
     \<and> out st2 ex_archive
         = Some [(''GT New Horizons 2.1/.minecraft/mods/A-v1.jar'', Bytes ''AAA''),
                 (''GT New Horizons 2.1/.minecraft/mods/B-v2.jar'', Bytes ''BBB''),
                 (''GT New Horizons 2.1/.minecraft/configA.cfg'', Bytes ''x''),
                 (''GT New Horizons 2.1/.minecraft/sub/'', Bytes []),
                 (''GT New Horizons 2.1/mmc-pack.json'', Bytes ''{}'')]"
  using mmc_meta_data_appended [OF ex_generic]
  by (auto simp: ex_generic ex_roots ex_deps_fields path_str_def)

subsection \<open>Client and server paths of \<^verbatim>\<open>download_mods\<close>\<close>

lemma download_mods_loop_ok:
  "download_mods_loop dl cb delta mods (c, s) st = (Inr (c', s'), st') \<Longrightarrow>
     c' = c @ concat (map (downloaded dl)
                 (filter (\<lambda>md. ModInfo_side md = ''CLIENT'' \<or> ModInfo_side md = ''BOTH'') mods))
     \<and> s' = s @ concat (map (downloaded dl)
                 (filter (\<lambda>md. ModInfo_side md = ''SERVER'' \<or> ModInfo_side md = ''BOTH'') mods))
     \<and> (\<forall>md \<in> set mods. dl md = Inr (downloaded dl md))"
proof (induction mods arbitrary: c s st)
  case Nil
  then show ?case by simp
next
  case (Cons md mods)
  from Cons.prems obtain st1 paths where
    dl: "dl md = Inr paths"
    and rest: "download_mods_loop dl cb delta mods
                 (if ModInfo_side md = ''BOTH'' \<or> ModInfo_side md = ''CLIENT'' then c @ paths else c,
                  if ModInfo_side md = ''BOTH'' \<or> ModInfo_side md = ''SERVER'' then s @ paths else s) st1
               = (Inr (c', s'), st')"
    by (auto split: prod.splits option.splits sum.splits if_splits)
  from Cons.IH [OF rest] dl show ?case
    by (auto simp: downloaded_def)
qed

text \<open>
  Claim C2. When \<^verbatim>\<open>download_mods\<close> returns, the client list is the concatenation, in
  manifest order, of the downloaded paths of exactly the mods whose side is \<^verbatim>\<open>CLIENT\<close>
  or \<^verbatim>\<open>BOTH\<close>, and the server list that of exactly the mods whose side is \<^verbatim>\<open>SERVER\<close> or
  \<^verbatim>\<open>BOTH\<close>; every mod has been downloaded, and the paths of a \<^verbatim>\<open>BOTH\<close> mod are in both
  lists.
\<close>

theorem download_mods_sides:
  assumes "download_mods download_mod github_mods callback st = (Inr (client_paths, server_paths), st')"
  shows "client_paths = concat (map (downloaded download_mod)
           (filter (\<lambda>md. ModInfo_side md = ''CLIENT'' \<or> ModInfo_side md = ''BOTH'') github_mods))
     \<and> server_paths = concat (map (downloaded download_mod)
           (filter (\<lambda>md. ModInfo_side md = ''SERVER'' \<or> ModInfo_side md = ''BOTH'') github_mods))
     \<and> (\<forall>md \<in> set github_mods. download_mod md = Inr (downloaded download_mod md))
     \<and> (\<forall>md \<in> set github_mods. ModInfo_side md = ''BOTH'' \<longrightarrow>
           set (downloaded download_mod md) \<subseteq> set client_paths \<inter> set server_paths)"
proof -
  from assms have
    "download_mods_loop download_mod callback (100 / real (length github_mods)) github_mods ([], []) st
       = (Inr (client_paths, server_paths), st')"
    by (simp add: download_mods_def split: if_splits)
  from download_mods_loop_ok [OF this] show ?thesis by auto
qed

lemma ex_download_mods:
  "download_mods ex_download_mod ex_github_mods None (ex_state 0)
   = (Inr ([PurePosixPath ''/'' [''cache'', ''A''], PurePosixPath ''/'' [''cache'', ''B'']],
           [PurePosixPath ''/'' [''cache'', ''A''], PurePosixPath ''/'' [''cache'', ''C'']]),
      ex_state 0)"
  by (simp add: download_mods_def ex_github_mods_def ex_download_mod_def invoke_def)

theorem download_mods_sides_witness:
  "download_mods ex_download_mod ex_github_mods None (ex_state 0)
   = (Inr ([PurePosixPath ''/'' [''cache'', ''A''], PurePosixPath ''/'' [''cache'', ''B'']],
           [PurePosixPath ''/'' [''cache'', ''A''], PurePosixPath ''/'' [''cache'', ''C'']]),
      ex_state 0)
   \<and> [PurePosixPath ''/'' [''cache'', ''A''], PurePosixPath ''/'' [''cache'', ''B'']]
       = concat (map (downloaded ex_download_mod)
           (filter (\<lambda>md. ModInfo_side md = ''CLIENT'' \<or> ModInfo_side md = ''BOTH'') ex_github_mods))
   \<and> [PurePosixPath ''/'' [''cache'', ''A''], PurePosixPath ''/'' [''cache'', ''C'']]
       = concat (map (downloaded ex_download_mod)
           (filter (\<lambda>md. ModInfo_side md = ''SERVER'' \<or> ModInfo_side md = ''BOTH'') ex_github_mods))"
  using download_mods_sides [OF ex_download_mods] ex_download_mods by simp

subsection \<open>An empty list of paths\<close>

text \<open>
  The assembler itself accepts a release without mods for the side: the mod loop does
  nothing and the run is the config step on the new archive.
\<close>

lemma assemble_without_mods:
  "get_mods self sd = [] \<Longrightarrow>
     GenericAssembler_assemble d self sd st
       = add_config d self sd (release_config self) (get_archive_path d self sd)
           (begin_assemble d self sd st)"
  by (simp add: GenericAssembler_assemble_def)

text \<open>
  Claim C9, which the code does not meet. With an empty list, \<^verbatim>\<open>pack_clientpack\<close> raises
  \<^verbatim>\<open>ZeroDivisionError\<close> when it computes the step of the progress bar, before it has
  touched any archive, whatever the version and the callback; \<^verbatim>\<open>download_mods\<close> does
  the same with an empty manifest.
\<close>

theorem empty_list_division:
  "pack_clientpack cache_dir [] pack_version callback st = (Some ZeroDivisionError, st)
   \<and> download_mods download_mod [] callback st = (Inl ZeroDivisionError, st)"
  by (simp add: pack_clientpack_def download_mods_def)

subsection \<open>The value of a progress bar\<close>

lemma float_min_le: "float_le (float_min (Finite 100) x) (Finite 100)"
  by (cases x) (auto simp: float_min_def float_le_def)

lemma bar_value_set [simp]: "bar_value (set_bar_value w v fr) w = v"
  by (cases w) (simp_all add: bar_value_def set_bar_value_def)

lemma bar_value_label [simp]: "bar_value (set_label_text w t fr) w' = bar_value fr w'"
  by (cases w; cases w') (simp_all add: bar_value_def set_label_text_def)

lemma callback_value:
  "bar_value (snd (ArchiveFrame_progress_callback fmt fr delta label bar_w label_w))
     (case bar_w of None \<Rightarrow> Task_widget | Some w \<Rightarrow> w)
   = float_min (Finite 100)
       (format_2f (float_add (bar_value fr (case bar_w of None \<Rightarrow> Task_widget | Some w \<Rightarrow> w)) delta))"
  by (simp add: ArchiveFrame_progress_callback_def Let_def split: option.splits)

lemma progress_calls_append:
  "progress_calls fmt fr (cs @ ds) = progress_calls fmt (progress_calls fmt fr cs) ds"
  by (induction cs arbitrary: fr) auto

text \<open>
  Claim C10. After every call of \<^verbatim>\<open>_progress_callback\<close>, at the end of any sequence of
  calls, from any state of the window and for any increment (finite of any size,
  infinite or NaN), the value of the bar the call has updated is at most 100.
\<close>

theorem progress_value_clamped:
  "float_le
     (bar_value (progress_calls str_format self (cs @ [(delta, label, bar_w, label_w)]))
        (case bar_w of None \<Rightarrow> Task_widget | Some w \<Rightarrow> w))
     (Finite 100)"
  by (simp add: progress_calls_append callback_value float_min_le)

theorem progress_value_clamped_witness:
  "bar_value (progress_calls ex_format ex_frame
       [(Finite 60, ''a'', None, None), (Finite 60, ''b'', None, None)]) Task_widget = Finite 100
   \<and> float_le (Finite 100) (Finite 100)"
proof -
  have "bar_value (progress_calls ex_format ex_frame
          [(Finite 60, ''a'', None, None), (Finite 60, ''b'', None, None)]) Task_widget = Finite 100"
    by (simp add: ArchiveFrame_progress_callback_def ex_format_def ex_frame_def bar_value_def
          set_bar_value_def set_label_text_def float_min_def round_half_even_def)
  with progress_value_clamped [of ex_format ex_frame "[(Finite 60, ''a'', None, None)]"
         "Finite 60" "''b''" None None]
  show ?thesis by simp
qed

subsection \<open>What the mod loop writes and reports\<close>

lemma add_mods_append:
  "add_mods d self sd (xs @ ys) a st =
     (case add_mods d self sd xs a st of
        (Some e, st1) \<Rightarrow> (Some e, st1)
      | (None, st1) \<Rightarrow> add_mods d self sd ys a st1)"
proof (induction xs arbitrary: st)
  case Nil
  show ?case by simp
next
  case (Cons mv xs)
  obtain md version where mv: "mv = (md, version)" by (cases mv)
  show ?case
    by (simp add: mv Cons.IH Let_def split: prod.splits option.splits)
qed

lemma add_mods_ok:
  "add_mods d self sd mods a st = (None, st') \<Longrightarrow>
     members st' a = members st a @ map (mod_member d self (cache st)) mods
     \<and> (\<forall>mv \<in> set mods. cache st (source_file_of d mv) \<noteq> None)"
proof (induction mods arbitrary: st)
  case Nil
  then show ?case by simp
next
  case (Cons mv mods)
  obtain md version where mv: "mv = (md, version)" by (cases mv)
  let ?src = "Path (get_asset_version_cache_location d (ModAsset md) version)"
  let ?arc = "joinpath (mmc_modpack_mods self) (path_name ?src)"
  from Cons.prems obtain st1 st2 where
    up: "update_progress d self sd ?src st = (None, st1)"
    and w: "zip_write a ?src ?arc st1 = (None, st2)"
    and rest: "add_mods d self sd mods a st2 = (None, st')"
    by (auto simp: mv Let_def split: prod.splits option.splits)
  from up have fr1: "out st1 = out st" "cache st1 = cache st"
    by (auto simp: update_progress_def dest: invoke_frame)
  from w have ex: "cache st1 ?src \<noteq> None"
    by (auto simp: zip_write_def split: option.splits)
  from zip_write_ok [OF w] obtain e where st2: "st2 = zip_append a e st1"
    and e: "e = (case cache st1 ?src of Some (RegularFile b) \<Rightarrow> (arcname_of ?arc, b)
                 | _ \<Rightarrow> (arcname_of ?arc @ ''/'', Bytes []))"
    by blast
  have mm: "mod_member d self (cache st) mv = e"
    by (simp add: e mod_member_def mod_arcname_def source_file_of_def mv fr1
             split: option.splits node.splits)
  have m1: "members st1 a = members st a" by (simp add: members_def fr1)
  have m2: "members st2 a = members st a @ [mod_member d self (cache st) mv]"
    by (simp add: st2 members_zip_append m1 mm)
  have c2: "cache st2 = cache st" by (simp add: st2 zip_append_fields fr1)
  from Cons.IH [OF rest] have
    "members st' a = members st2 a @ map (mod_member d self (cache st2)) mods"
    "\<forall>mv \<in> set mods. cache st2 (source_file_of d mv) \<noteq> None"
    by simp_all
  then show ?case
    using ex by (simp add: m2 c2 fr1 source_file_of_def mv)
qed

lemma add_mods_calls:
  "progress_callback self = Some f \<Longrightarrow> add_mods d self sd mods a st = (None, st') \<Longrightarrow>
     calls st' = calls st @
       map (\<lambda>mv. (delta_progress st,
                   update_progress_label d sd (release_version self) (source_file_of d mv))) mods"
proof (induction mods arbitrary: st)
  case Nil
  then show ?case by simp
next
  case (Cons mv mods)
  obtain md version where mv: "mv = (md, version)" by (cases mv)
  let ?src = "Path (get_asset_version_cache_location d (ModAsset md) version)"
  let ?arc = "joinpath (mmc_modpack_mods self) (path_name ?src)"
  from Cons.prems(2) obtain st1 st2 where
    up: "update_progress d self sd ?src st = (None, st1)"
    and w: "zip_write a ?src ?arc st1 = (None, st2)"
    and rest: "add_mods d self sd mods a st2 = (None, st')"
    by (auto simp: mv Let_def split: prod.splits option.splits)
  from up Cons.prems(1) have c1: "calls st1 = calls st @
      [(delta_progress st, update_progress_label d sd (release_version self) ?src)]"
    and d1: "delta_progress st1 = delta_progress st"
    by (auto simp: update_progress_def dest: invoke_Some_calls invoke_frame)
  from zip_write_ok [OF w] have c2: "calls st2 = calls st1" "delta_progress st2 = delta_progress st1"
    by (auto simp: zip_append_fields)
  from Cons.IH [OF Cons.prems(1) rest] show ?case
    by (simp add: c1 c2 d1 mv source_file_of_def)
qed

lemma add_config_calls:
  "progress_callback self = Some f \<Longrightarrow> add_config d self sd (cfg, ver) a st = (None, st') \<Longrightarrow>
     calls st' = calls st @
       [(delta_progress st, update_progress_label d sd (release_version self)
           (Path (get_asset_version_cache_location d (ConfigAsset cfg) ver)))]"
proof -
  assume cb: "progress_callback self = Some f"
    and ok: "add_config d self sd (cfg, ver) a st = (None, st')"
  let ?file = "Path (get_asset_version_cache_location d (ConfigAsset cfg) ver)"
  from ok obtain z st1 where
    up: "update_progress d self sd ?file st = (None, st1)"
    and items: "add_config_items self sd z (namelist z) a st1 = (None, st')"
    by (auto simp: add_config_def Let_def split: sum.splits prod.splits option.splits)
  from up cb have "calls st1 = calls st @
      [(delta_progress st, update_progress_label d sd (release_version self) ?file)]"
    by (auto simp: update_progress_def dest: invoke_Some_calls)
  with add_config_items_ok [OF items] show ?thesis by simp
qed

lemma ex_assemble:
  "assemble ex_deps ex_self CLIENT (ex_state 0)
   = (None,
      \<lparr>cache = ex_cache,
        out = [ex_archive \<mapsto>
                 [(''GT New Horizons 2.1/.minecraft/mods/A-v1.jar'', Bytes ''AAA''),
                  (''GT New Horizons 2.1/.minecraft/mods/B-v2.jar'', Bytes ''BBB''),
                  (''GT New Horizons 2.1/.minecraft/configA.cfg'', Bytes ''x''),
                  (''GT New Horizons 2.1/.minecraft/sub/'', Bytes []),
                  (''GT New Horizons 2.1/mmc-pack.json'', Bytes ''{}'')]],
        cb_state = 3,
        calls = [(100 / 3, ''A-v1.jar {0}%''), (100 / 3, ''B-v2.jar {0}%''),
                 (100 / 3, ''cfg-v9.zip {0}%'')],
        delta_progress = 100 / 3\<rparr>)"
  by (simp add: assemble_def ex_generic add_mmc_meta_data_def zip_append_def ex_roots
        ex_deps_fields path_str_def)

lemma ex_add_mods_first:
  "add_mods ex_deps ex_self CLIENT [(\<lparr>mod_name = ''A'', mod_side = BOTH\<rparr>, ''v1'')] ex_archive
     (begin_assemble ex_deps ex_self CLIENT (ex_state 6))
   = (None,
      \<lparr>cache = ex_cache,
        out = [ex_archive \<mapsto> [(''GT New Horizons 2.1/.minecraft/mods/A-v1.jar'', Bytes ''AAA'')]],
        cb_state = 7,
        calls = [(100 / 3, ''A-v1.jar {0}%'')],
        delta_progress = 100 / 3\<rparr>)"
  by (simp add: ex_begin ex_simps update_progress_def invoke_def ex_callback_def zip_write_def
        zip_append_def joinpath_def path_name_def)

subsection \<open>A callback that raises\<close>

text \<open>
  Claim C7. Let the callback raise \<open>x\<close> when it is called for the \<open>k\<close>-th included mod,
  the \<open>k - 1\<close> mods before it having been processed. Then \<^verbatim>\<open>assemble\<close> ends with that
  exception, nothing having caught it, and the archive holds exactly the members of
  those \<open>k - 1\<close> mods, in order: neither the \<open>k\<close>-th mod nor a later one, nor a config
  entry, nor the metadata entry has been written.
\<close>

theorem callback_exception_aborts:
  assumes cb: "progress_callback self = Some f"
    and mods: "get_mods self CLIENT = pre @ mv # post"
    and pre: "add_mods d self CLIENT pre (get_archive_path d self CLIENT)
                (begin_assemble d self CLIENT st) = (None, st1)"
    and raise: "f (delta_progress st1)
                  (update_progress_label d CLIENT (release_version self) (source_file_of d mv))
                  (cb_state st1) = Inl x"
  shows "\<exists>st2.
     assemble d self CLIENT st = (Some (Raised x), st2)
     \<and> out st2 (get_archive_path d self CLIENT) = Some (map (mod_member d self (cache st)) pre)
     \<and> length (map (mod_member d self (cache st)) pre) = length pre
     \<and> cb_state st2 = cb_state st1"
proof -
  let ?a = "get_archive_path d self CLIENT"
  let ?st0 = "begin_assemble d self CLIENT st"
  let ?st2 = "st1\<lparr>calls := calls st1 @ [(delta_progress st1,
                 update_progress_label d CLIENT (release_version self) (source_file_of d mv))]\<rparr>"
  obtain md version where mv: "mv = (md, version)" by (cases mv)
  have up: "update_progress d self CLIENT
              (Path (get_asset_version_cache_location d (ModAsset md) version)) st1
            = (Some (Raised x), ?st2)"
    using raise by (simp add: update_progress_def cb invoke_Some_raise source_file_of_def mv)
  have "add_mods d self CLIENT (mv # post) ?a st1 = (Some (Raised x), ?st2)"
    by (simp add: mv up)
  then have "add_mods d self CLIENT (get_mods self CLIENT) ?a ?st0 = (Some (Raised x), ?st2)"
    by (simp add: mods add_mods_append pre)
  then have "GenericAssembler_assemble d self CLIENT st = (Some (Raised x), ?st2)"
    by (simp add: GenericAssembler_assemble_def)
  then have res: "assemble d self CLIENT st = (Some (Raised x), ?st2)"
    by (simp add: assemble_def)
  from add_mods_ok [OF pre] have "members st1 ?a = map (mod_member d self (cache st)) pre"
    by (simp add: members_def begin_assemble_fields)
  moreover from add_mods_frame [OF pre] have "out st1 ?a \<noteq> None"
    by (simp add: begin_assemble_fields)
  ultimately have "out st1 ?a = Some (map (mod_member d self (cache st)) pre)"
    by (auto simp: members_def)
  with res show ?thesis by simp
qed

theorem callback_exception_aborts_witness:
  "\<exists>st2.
     assemble ex_deps ex_self CLIENT (ex_state 6) = (Some (Raised ''stop''), st2)
     \<and> out st2 ex_archive
         = Some [(''GT New Horizons 2.1/.minecraft/mods/A-v1.jar'', Bytes ''AAA'')]
     \<and> cb_state st2 = 7"
proof -
  have cb: "progress_callback ex_self = Some ex_callback" by (simp add: ex_self_fields)
  have mods: "get_mods ex_self CLIENT
                = [(\<lparr>mod_name = ''A'', mod_side = BOTH\<rparr>, ''v1'')]
                  @ (\<lparr>mod_name = ''B'', mod_side = CLIENT\<rparr>, ''v2'') # []"
    by (simp add: ex_get_mods)
  have raise: "ex_callback (100 / 3) l 7 = Inl ''stop''" for l
    by (simp add: ex_callback_def)
  have mm: "mod_member ex_deps ex_self (cache (ex_state 6)) (\<lparr>mod_name = ''A'', mod_side = BOTH\<rparr>, ''v1'')
              = (''GT New Horizons 2.1/.minecraft/mods/A-v1.jar'', Bytes ''AAA'')"
    by (simp add: mod_member_def mod_arcname_def source_file_of_def ex_state_def ex_simps
          joinpath_def path_name_def)
  from callback_exception_aborts [OF cb mods ex_add_mods_first [unfolded ex_roots(4) [of CLIENT, symmetric]]]
  show ?thesis
    by (simp add: raise mm ex_roots)
qed

subsection \<open>Progress accounting\<close>

lemma steps_sum: "real n * (100 / real (n + 1)) + 100 / real (n + 1) = 100"
proof -
  have "0 \<le> real n" by simp
  then have nz: "real n + 1 \<noteq> 0" by linarith
  have eq: "real (n + 1) = real n + 1" by simp
  have "real n * (100 / (real n + 1)) + 100 / (real n + 1) = (real n + 1) * (100 / (real n + 1))"
    by (simp only: distrib_right mult_1)
  also have "\<dots> = 100"
    using nz
    by (rule nonzero_mult_div_cancel_left [of "real n + 1" 100,
               unfolded times_divide_eq_right [symmetric]])
  finally show ?thesis by (simp only: eq)
qed

lemma sum_list_const: "sum_list (map (\<lambda>x. c) xs) = real (length xs) * c"
  by (induction xs) (simp_all add: algebra_simps)

lemma GenericAssembler_assemble_calls:
  assumes cb: "progress_callback self = Some f"
    and ok: "GenericAssembler_assemble d self sd st = (None, st')"
  shows "\<exists>new. calls st' = calls st @ new
     \<and> length new = length (get_mods self sd) + 1
     \<and> (\<forall>c \<in> set new. fst c = 100 / real (length (get_mods self sd) + 1))
     \<and> sum_list (map fst new) = 100"
proof -
  let ?a = "get_archive_path d self sd"
  let ?n = "length (get_mods self sd)"
  let ?dl = "100 / real (?n + 1)"
  obtain cfg ver where c: "release_config self = (cfg, ver)" by force
  from ok obtain st1 where
    m: "add_mods d self sd (get_mods self sd) ?a (begin_assemble d self sd st) = (None, st1)"
    and cf: "add_config d self sd (cfg, ver) ?a st1 = (None, st')"
    by (auto simp: GenericAssembler_assemble_def Let_def c split: prod.splits option.splits)
  let ?new = "map (\<lambda>mv. (?dl, update_progress_label d sd (release_version self) (source_file_of d mv)))
                (get_mods self sd)
              @ [(?dl, update_progress_label d sd (release_version self)
                         (Path (get_asset_version_cache_location d (ConfigAsset cfg) ver)))]"
  from add_mods_calls [OF cb m] have c1: "calls st1 = calls st @
      map (\<lambda>mv. (?dl, update_progress_label d sd (release_version self) (source_file_of d mv)))
        (get_mods self sd)"
    by (simp add: begin_assemble_fields)
  from add_mods_frame [OF m] have d1: "delta_progress st1 = ?dl"
    by (simp add: begin_assemble_fields)
  from add_config_calls [OF cb cf] have "calls st' = calls st @ ?new"
    by (simp add: c1 d1)
  moreover have "length ?new = ?n + 1" by simp
  moreover have "\<forall>c \<in> set ?new. fst c = ?dl" by auto
  moreover have "sum_list (map fst ?new) = 100"
  proof -
    have "sum_list (map fst ?new) = real ?n * ?dl + ?dl"
      by (simp add: comp_def sum_list_const)
    then show ?thesis by (simp only: steps_sum)
  qed
  ultimately show ?thesis by blast
qed

text \<open>
  Claim C8. With a callback, a run that completes has called it once for each included
  mod and once for the configs, that is \<open>length (get_mods self sd) + 1\<close> times, and the
  increments it has reported add up to 100, the step being 100 over that number of
  steps. This holds for the base method on any side and for \<^verbatim>\<open>MMCAssembler.assemble\<close>.
\<close>

theorem progress_accounting:
  assumes "progress_callback self = Some f"
  shows "(GenericAssembler_assemble d self sd st = (None, st1) \<longrightarrow>
            (\<exists>new. calls st1 = calls st @ new
               \<and> length new = length (get_mods self sd) + 1
               \<and> sum_list (map fst new) = 100))
     \<and> (assemble d self sd st = (None, st2) \<longrightarrow>
            (\<exists>new. calls st2 = calls st @ new
               \<and> length new = length (get_mods self sd) + 1
               \<and> sum_list (map fst new) = 100))"
proof (intro conjI impI)
  assume "GenericAssembler_assemble d self sd st = (None, st1)"
  from GenericAssembler_assemble_calls [OF assms this]
  show "\<exists>new. calls st1 = calls st @ new \<and> length new = length (get_mods self sd) + 1
          \<and> sum_list (map fst new) = 100"
    by blast
next
  assume a: "assemble d self sd st = (None, st2)"
  then have sd: "sd = CLIENT" by (auto simp: assemble_def split: if_splits)
  from a obtain st1 where g: "GenericAssembler_assemble d self sd st = (None, st1)"
    and m: "add_mmc_meta_data d self sd st1 = (None, st2)"
    by (auto simp: assemble_def sd split: prod.splits option.splits)
  from m have "calls st2 = calls st1" by (auto simp: add_mmc_meta_data_def zip_append_fields)
  with GenericAssembler_assemble_calls [OF assms g]
  show "\<exists>new. calls st2 = calls st @ new \<and> length new = length (get_mods self sd) + 1
          \<and> sum_list (map fst new) = 100"
    by auto
qed

theorem progress_accounting_witness:
  "progress_callback ex_self = Some ex_callback
   \<and> fst (assemble ex_deps ex_self CLIENT (ex_state 0)) = None
   \<and> length (calls (snd (assemble ex_deps ex_self CLIENT (ex_state 0))))
       = length (get_mods ex_self CLIENT) + 1
   \<and> sum_list (map fst (calls (snd (assemble ex_deps ex_self CLIENT (ex_state 0))))) = 100"
proof -
  have cb: "progress_callback ex_self = Some ex_callback" by (simp add: ex_self_fields)
  have c0: "calls (ex_state 0) = []" by (simp add: ex_state_def)
  from progress_accounting [OF cb, of ex_deps CLIENT "ex_state 0"
         "snd (GenericAssembler_assemble ex_deps ex_self CLIENT (ex_state 0))"
         "snd (assemble ex_deps ex_self CLIENT (ex_state 0))"]
  show ?thesis
    by (auto simp: ex_assemble ex_generic cb c0)
qed

subsection \<open>Member names for a plain version and plain file names\<close>

lemma split_sep_not_Nil [simp]: "split_sep s \<noteq> []"
  by (induction s) (auto split: list.splits)
















text \<open>
  What the comment in \<^verbatim>\<open>add_config\<close> says about \<^verbatim>\<open>Path\<close>: joining an item that ends in
  the separator to a path loses the separator, and so does a version that ends in one.
\<close>

lemma Path_drops_trailing_separator:
  "path_str (joinpath (Path ''a/.minecraft'') ''sub/'') = ''a/.minecraft/sub''"
  "path_str (Path ''GT New Horizons 1/'') = ''GT New Horizons 1''"
  by (simp_all add: joinpath_def Path_def posix_root_def path_str_def)



subsection \<open>A version that holds the separator\<close>










end
